theory Spec2Isabelle
  imports Complex_Main
begin

section \<open>Strings and dictionaries as the Python code uses them\<close>

text \<open>
  Python's \<^verbatim>\<open>needle in haystack\<close> on strings: \<open>needle\<close> occurs as a contiguous
  slice of \<open>haystack\<close>.
\<close>

fun starts_with :: "string \<Rightarrow> string \<Rightarrow> bool" where
  "starts_with [] s = True"
| "starts_with (p # ps) [] = False"
| "starts_with (p # ps) (c # cs) = (p = c \<and> starts_with ps cs)"

fun str_in :: "string \<Rightarrow> string \<Rightarrow> bool" where
  "str_in needle [] = starts_with needle []"
| "str_in needle (c # cs) = (starts_with needle (c # cs) \<or> str_in needle cs)"

text \<open>
  \<^verbatim>\<open>simbolo.replace('.SA', '')\<close>: every non-overlapping occurrence of the three
  characters, scanning from the left, is dropped.
\<close>

function replace_SA :: "string \<Rightarrow> string" where
  "replace_SA [] = []"
| "replace_SA (c # cs) =
     (if starts_with ''.SA'' (c # cs) then replace_SA (drop 3 (c # cs))
      else c # replace_SA cs)"
  by pat_completeness auto
termination
  by (relation "measure length") auto

text \<open>\<^verbatim>\<open>d.get(key, default)\<close> on a dictionary kept as an association list.\<close>

definition dict_get :: "('k \<times> 'v) list \<Rightarrow> 'k \<Rightarrow> 'v \<Rightarrow> 'v" where
  "dict_get d k dflt = (case map_of d k of None \<Rightarrow> dflt | Some v \<Rightarrow> v)"

section \<open>Instrument registry\<close>

text \<open>
  \<^verbatim>\<open>RobustDataLoader.__init__\<close> (data_loader.py) and \<^verbatim>\<open>DataLoader.__init__\<close>
  (app.py): a dictionary from category to the list of its symbols, in insertion order.
  The registry of app.py has one more equity.
\<close>

definition RobustDataLoader_ativos_monitorados :: "(string \<times> string list) list" where
  "RobustDataLoader_ativos_monitorados =
     [(''FII'', [''MXRF11.SA'', ''HGLG11.SA'', ''KNRI11.SA'', ''VISC11.SA'', ''RBRP11.SA'',
                 ''SDIL11.SA'']),
      (''ETF'', [''BOVA11.SA'', ''DIVO11.SA'', ''SMAL11.SA'', ''IVVB11.SA'']),
      (''ACAO'', [''VALE3.SA'', ''PETR4.SA'', ''BBAS3.SA'', ''ITUB4.SA'', ''TAEE11.SA''])]"

definition DataLoader_ativos_monitorados :: "(string \<times> string list) list" where
  "DataLoader_ativos_monitorados =
     [(''FII'', [''MXRF11.SA'', ''HGLG11.SA'', ''KNRI11.SA'', ''VISC11.SA'', ''RBRP11.SA'',
                 ''SDIL11.SA'']),
      (''ETF'', [''BOVA11.SA'', ''DIVO11.SA'', ''SMAL11.SA'', ''IVVB11.SA'']),
      (''ACAO'', [''VALE3.SA'', ''PETR4.SA'', ''BBAS3.SA'', ''ITUB4.SA'', ''TAEE11.SA'',
                  ''WEGE3.SA''])]"

text \<open>
  The fallback display names. Characters are bytes, so the three accented letters of the
  source are written as their UTF-8 encoding.
\<close>

definition nomes_fallback :: "(string \<times> string) list" where
  "nomes_fallback =
     [(''VALE3.SA'', ''Vale SA''),
      (''PETR4.SA'', ''Petrobras''),
      (''BBAS3.SA'', ''Banco do Brasil''),
      (''ITUB4.SA'', ''Ita'' @ [CHR 0xC3, CHR 0xBA] @ '' Unibanco''),
      (''TAEE11.SA'', ''Taesa''),
      (''MXRF11.SA'', ''Maxi Renda FII''),
      (''HGLG11.SA'', ''CSHG Log'' @ [CHR 0xC3, CHR 0xAD] @ ''stica''),
      (''KNRI11.SA'', ''Kinea Renda Imobili'' @ [CHR 0xC3, CHR 0xA1] @ ''ria''),
      (''VISC11.SA'', ''Vinci Shopping Centers''),
      (''RBRP11.SA'', ''RBR Properties''),
      (''SDIL11.SA'', ''SDI Dividendos''),
      (''BOVA11.SA'', ''ETF Ibovespa''),
      (''DIVO11.SA'', ''ETF Dividendos''),
      (''SMAL11.SA'', ''ETF Small Caps''),
      (''IVVB11.SA'', ''ETF S&P 500'')]"

text \<open>
  \<^verbatim>\<open>next((k for k, v in self.ativos_monitorados.items() if simbolo in v), 'OUTRO')\<close>:
  the first category whose list holds the symbol.
\<close>

fun tipo_of :: "(string \<times> string list) list \<Rightarrow> string \<Rightarrow> string" where
  "tipo_of [] simbolo = ''OUTRO''"
| "tipo_of ((k, v) # rest) simbolo = (if simbolo \<in> set v then k else tipo_of rest simbolo)"

section \<open>Payment frequency\<close>

text \<open>
  \<^verbatim>\<open>RobustDataLoader._get_frequencia_pagamento(simbolo)\<close> looks at the text of the
  symbol; \<^verbatim>\<open>DataLoader._get_frequencia_pagamento(tipo)\<close> looks the category up in a
  dictionary.
\<close>

definition RobustDataLoader_get_frequencia_pagamento :: "string \<Rightarrow> string" where
  "RobustDataLoader_get_frequencia_pagamento simbolo =
     (if str_in ''11'' simbolo
      then (if str_in ''FII'' simbolo then ''Mensal'' else ''Trimestral'')
      else ''Trimestral/Semestral'')"

definition DataLoader_get_frequencia_pagamento :: "string \<Rightarrow> string" where
  "DataLoader_get_frequencia_pagamento tipo =
     dict_get [(''FII'', ''Mensal''), (''ETF'', ''Trimestral''),
               (''ACAO'', ''Trimestral/Semestral'')] tipo ''N/A''"

section \<open>Numbers\<close>

text \<open>
  Prices and dividends are floating-point numbers in the source. They are modelled as
  exact real numbers: the provider's figures are taken to be finite, and arithmetic is
  exact. One operation of the source leaves the finite numbers on such inputs, the
  division by the prior price when that price is zero, where NumPy yields \<open>inf\<close>,
  \<open>-inf\<close> or \<open>nan\<close> with a warning and no exception. That outcome is kept apart
  from every number.
\<close>

datatype np_float = Finite real | NonFinite

definition np_div :: "real \<Rightarrow> real \<Rightarrow> np_float" where
  "np_div a b = (if b = 0 then NonFinite else Finite (a / b))"

fun np_times :: "np_float \<Rightarrow> real \<Rightarrow> np_float" where
  "np_times (Finite a) c = Finite (a * c)"
| "np_times NonFinite c = NonFinite"

text \<open>
  \<^verbatim>\<open>round(x, 2)\<close>: to the nearest multiple of one hundredth, a tie going to the even
  neighbour. A non-finite value stays as it is.
\<close>

definition rint :: "real \<Rightarrow> int" where
  "rint x =
     (let f = \<lfloor>x\<rfloor>; d = x - of_int f
      in if d < 1 / 2 then f else if 1 / 2 < d then f + 1
         else if even f then f else f + 1)"

definition round2 :: "real \<Rightarrow> real" where
  "round2 x = of_int (rint (x * 100)) / 100"

fun np_round2 :: "np_float \<Rightarrow> np_float" where
  "np_round2 (Finite a) = Finite (round2 a)"
| "np_round2 NonFinite = NonFinite"

text \<open>
  \<^verbatim>\<open>dividends.tail(4)\<close> keeps the last four entries, or all of them when there are
  fewer; \<^verbatim>\<open>.mean()\<close> is only reached on a series that is not empty.
\<close>

definition tail :: "nat \<Rightarrow> 'a list \<Rightarrow> 'a list" where
  "tail n xs = drop (length xs - n) xs"

definition mean :: "real list \<Rightarrow> real" where
  "mean xs = sum_list xs / real (length xs)"

section \<open>The data provider and the quote record\<close>

text \<open>
  What the provider answers for one symbol. Each of the three lookups either raises an
  exception or returns its value: the price history is a list of daily bars, oldest
  first; the metadata is a dictionary; the dividend history is a series, oldest first.
  \<open>session\<close> is the outcome of creating the HTTP session and \<open>now\<close> the clock reading
  taken when the record is built. An exception is one of Python's class
  \<^verbatim>\<open>Exception\<close>, which is what the handlers of the loops catch; printing, sleeping
  and building the ticker object are taken not to raise.

  \<open>set_session\<close> is the outcome of \<^verbatim>\<open>yf.set_session(session)\<close>, the first statement
  of \<^verbatim>\<open>_get_yfinance_data\<close>, which only \<^verbatim>\<open>RobustDataLoader\<close> executes: \<open>Some e\<close>
  when it raises \<open>e\<close>. The yfinance library exports no \<^verbatim>\<open>set_session\<close>, and the
  statement then raises \<^verbatim>\<open>AttributeError\<close> for every symbol.
\<close>

datatype exc = Exception string

record bar =
  Open :: real
  Close :: real

record reply =
  session :: "exc option"
  set_session :: "exc option"
  history :: "exc + bar list"
  info :: "exc + (string \<times> string) list"
  dividends :: "exc + real list"
  now :: nat

type_synonym provider = "string \<Rightarrow> reply"

record ativo =
  simbolo :: string
  nome :: string
  tipo :: string
  preco_atual :: real
  dividend_yield :: real
  ultimo_dividendo :: real
  frequencia_pagamento :: string
  setor :: string
  variacao_dia :: np_float
  atualizado_em :: nat

section \<open>Metrics\<close>

text \<open>
  \<^verbatim>\<open>_safe_dividend_calc\<close> (data_loader.py) and \<^verbatim>\<open>_estimate_dividend_yield\<close> (app.py)
  have the same body, as have \<^verbatim>\<open>_safe_last_dividend\<close> and
  \<^verbatim>\<open>_get_ultimo_dividendo\<close>. An exception raised by the dividend lookup is swallowed
  and the function returns \<open>0.0\<close>.
\<close>

definition safe_dividend_calc :: "exc + real list \<Rightarrow> real \<Rightarrow> real" where
  "safe_dividend_calc dvs current_price =
     (case dvs of
        Inl e \<Rightarrow> 0
      | Inr ds \<Rightarrow>
          if 0 < length ds \<and> 0 < current_price
          then (mean (tail 4 ds) * 12 / current_price) * 100
          else 0)"

definition safe_last_dividend :: "exc + real list \<Rightarrow> real" where
  "safe_last_dividend dvs =
     (case dvs of
        Inl e \<Rightarrow> 0
      | Inr ds \<Rightarrow> if 0 < length ds then last ds else 0)"

text \<open>
  The day change of both loaders: the last close against the last open when the history
  has more than one bar, against the first close otherwise (app.py: against the current
  price itself, which is the same bar).
\<close>

definition variacao_of :: "real \<Rightarrow> real \<Rightarrow> np_float" where
  "variacao_of p_atual p_anterior =
     np_times (np_div (p_atual - p_anterior) p_anterior) 100"

section \<open>RobustDataLoader (data_loader.py)\<close>

definition mock_prices :: "(string \<times> real) list" where
  "mock_prices =
     [(''VALE3.SA'', 6890 / 100), (''PETR4.SA'', 3750 / 100), (''BBAS3.SA'', 5780 / 100),
      (''ITUB4.SA'', 3345 / 100), (''TAEE11.SA'', 4120 / 100), (''MXRF11.SA'', 1025 / 100),
      (''HGLG11.SA'', 15830 / 100), (''KNRI11.SA'', 13450 / 100), (''VISC11.SA'', 9480 / 100),
      (''RBRP11.SA'', 8690 / 100), (''SDIL11.SA'', 10675 / 100), (''BOVA11.SA'', 11540 / 100),
      (''DIVO11.SA'', 9860 / 100), (''SMAL11.SA'', 5230 / 100), (''IVVB11.SA'', 24580 / 100)]"

definition get_mock_price :: "string \<Rightarrow> real" where
  "get_mock_price s = dict_get mock_prices s 10"

text \<open>
  \<^verbatim>\<open>_get_yfinance_data\<close>. \<open>None\<close> is the function's \<^verbatim>\<open>return None\<close>:
  \<^verbatim>\<open>yf.set_session\<close> or the history lookup raised (caught by the outer handler of the
  function), or the history is empty. A failing metadata lookup is caught by the inner
  handler.
\<close>

definition get_yfinance_data :: "reply \<Rightarrow> string \<Rightarrow> ativo option" where
  "get_yfinance_data rp s =
     (case set_session rp of
        Some e \<Rightarrow> None
      | None \<Rightarrow>
          (case history rp of
             Inl e \<Rightarrow> None
           | Inr hist \<Rightarrow>
               if hist = [] \<or> length hist < 1 then None
               else
                 let p_atual = Close (last hist);
                     p_anterior =
                       (if 1 < length hist then Open (last hist) else Close (hd hist));
                     variacao = variacao_of p_atual p_anterior;
                     (nome_v, setor_v) =
                       (case info rp of
                          Inr d \<Rightarrow> (dict_get d ''longName'' (dict_get nomes_fallback s s),
                                     dict_get d ''sector'' ''N/A'')
                        | Inl e \<Rightarrow> (dict_get nomes_fallback s s, ''N/A''));
                     dy = safe_dividend_calc (dividends rp) p_atual;
                     ud = safe_last_dividend (dividends rp)
                 in Some \<lparr>simbolo = replace_SA s,
                          nome = nome_v,
                          tipo = tipo_of RobustDataLoader_ativos_monitorados s,
                          preco_atual = round2 p_atual,
                          dividend_yield = round2 dy,
                          ultimo_dividendo = round2 ud,
                          frequencia_pagamento = RobustDataLoader_get_frequencia_pagamento s,
                          setor = setor_v,
                          variacao_dia = np_round2 variacao,
                          atualizado_em = now rp\<rparr>))"

text \<open>\<^verbatim>\<open>_get_fallback_data\<close>: nothing in its body can raise, so it always returns a record.\<close>

definition get_fallback_data :: "reply \<Rightarrow> string \<Rightarrow> ativo option" where
  "get_fallback_data rp s =
     Some \<lparr>simbolo = replace_SA s,
           nome = dict_get nomes_fallback s s,
           tipo = tipo_of RobustDataLoader_ativos_monitorados s,
           preco_atual = get_mock_price s,
           dividend_yield = 65 / 10,
           ultimo_dividendo = 50 / 100,
           frequencia_pagamento = RobustDataLoader_get_frequencia_pagamento s,
           setor = ''N/A'',
           variacao_dia = Finite 0,
           atualizado_em = now rp\<rparr>"

text \<open>
  The body of the \<^verbatim>\<open>try\<close> in \<^verbatim>\<open>RobustDataLoader.get_ativos_info\<close> for one symbol:
  \<open>Inl\<close> is an exception leaving the body, \<open>Inr None\<close> no data, \<open>Inr (Some d)\<close> the
  record that is appended.
\<close>

definition RobustDataLoader_fetch :: "reply \<Rightarrow> string \<Rightarrow> exc + ativo option" where
  "RobustDataLoader_fetch rp s =
     (case session rp of
        Some e \<Rightarrow> Inl e
      | None \<Rightarrow>
          (let dados = get_yfinance_data rp s;
               dados = (if dados = None then get_fallback_data rp s else dados)
           in Inr dados))"

text \<open>
  The collection loop. \<open>ativos\<close> is the list built so far; the \<open>Inl\<close> branch is the
  handler \<^verbatim>\<open>except Exception as e: ... continue\<close>.
\<close>

fun collect :: "(reply \<Rightarrow> string \<Rightarrow> exc + ativo option) \<Rightarrow> provider \<Rightarrow> string list \<Rightarrow>
    ativo list \<Rightarrow> ativo list" where
  "collect fetch prov [] ativos = ativos"
| "collect fetch prov (s # ss) ativos =
     (case fetch (prov s) s of
        Inl e \<Rightarrow> collect fetch prov ss ativos
      | Inr None \<Rightarrow> collect fetch prov ss ativos
      | Inr (Some dados) \<Rightarrow> collect fetch prov ss (ativos @ [dados]))"

text \<open>The record, if any, that one pass of the loop body appends.\<close>

definition fetched :: "exc + ativo option \<Rightarrow> ativo option" where
  "fetched r = (case r of Inl e \<Rightarrow> None | Inr dados \<Rightarrow> dados)"

fun RobustDataLoader_loop :: "provider \<Rightarrow> (string \<times> string list) list \<Rightarrow> ativo list \<Rightarrow>
    ativo list" where
  "RobustDataLoader_loop prov [] ativos = ativos"
| "RobustDataLoader_loop prov ((t, lista) # rest) ativos =
     RobustDataLoader_loop prov rest (collect RobustDataLoader_fetch prov lista ativos)"

definition RobustDataLoader_get_ativos_info :: "provider \<Rightarrow> ativo list" where
  "RobustDataLoader_get_ativos_info prov =
     RobustDataLoader_loop prov RobustDataLoader_ativos_monitorados []"

section \<open>DataLoader (app.py)\<close>

text \<open>
  The body of the \<^verbatim>\<open>try\<close> in \<^verbatim>\<open>DataLoader.get_ativos_info\<close> for one category and
  symbol. The metadata and the history are looked up first and nothing guards them, so
  an exception of either leaves the body. There is no fallback: an empty history gives
  no record. Nothing is rounded.
\<close>

definition DataLoader_fetch :: "string \<Rightarrow> reply \<Rightarrow> string \<Rightarrow> exc + ativo option" where
  "DataLoader_fetch t rp s =
     (case info rp of
        Inl e \<Rightarrow> Inl e
      | Inr d \<Rightarrow>
          (case history rp of
             Inl e \<Rightarrow> Inl e
           | Inr hist \<Rightarrow>
               if hist \<noteq> [] then
                 let p_atual = Close (last hist);
                     p_anterior = (if 1 < length hist then Open (last hist) else p_atual);
                     variacao = variacao_of p_atual p_anterior;
                     dy = safe_dividend_calc (dividends rp) p_atual;
                     ud = safe_last_dividend (dividends rp)
                 in Inr (Some \<lparr>simbolo = replace_SA s,
                                nome = dict_get d ''longName'' s,
                                tipo = t,
                                preco_atual = p_atual,
                                dividend_yield = dy,
                                ultimo_dividendo = ud,
                                frequencia_pagamento = DataLoader_get_frequencia_pagamento t,
                                setor = dict_get d ''sector'' ''N/A'',
                                variacao_dia = variacao,
                                atualizado_em = now rp\<rparr>)
               else Inr None))"

fun DataLoader_loop :: "provider \<Rightarrow> (string \<times> string list) list \<Rightarrow> ativo list \<Rightarrow>
    ativo list" where
  "DataLoader_loop prov [] ativos = ativos"
| "DataLoader_loop prov ((t, lista) # rest) ativos =
     DataLoader_loop prov rest (collect (DataLoader_fetch t) prov lista ativos)"

definition DataLoader_get_ativos_info :: "provider \<Rightarrow> ativo list" where
  "DataLoader_get_ativos_info prov = DataLoader_loop prov DataLoader_ativos_monitorados []"

section \<open>Database (database.py, app.py)\<close>

text \<open>
  The table \<^verbatim>\<open>ativos\<close>: an \<^verbatim>\<open>INTEGER PRIMARY KEY AUTOINCREMENT\<close> column and the ten
  columns of a quote record, \<^verbatim>\<open>simbolo\<close> being \<^verbatim>\<open>UNIQUE\<close>. Rows are kept in the
  order of their ids. \<open>seq\<close> is the largest id given so far, which SQLite keeps for an
  autoincrement column, so that an id is never given twice. \<^verbatim>\<open>salvar_ativos\<close> of
  database.py reads the ten values as attributes of the record and that of app.py as
  dictionary entries; the statement they execute is the same.
\<close>

record row =
  row_id :: nat
  dados :: ativo

record database =
  ativos_table :: "row list"
  seq :: nat

text \<open>
  \<^verbatim>\<open>_init_db\<close>: \<^verbatim>\<open>CREATE TABLE IF NOT EXISTS\<close> makes an empty table when the file has
  none (\<open>None\<close>) and leaves an existing one as it is.
\<close>

definition init_db :: "database option \<Rightarrow> database" where
  "init_db file =
     (case file of None \<Rightarrow> \<lparr>ativos_table = [], seq = 0\<rparr> | Some db \<Rightarrow> db)"

text \<open>
  \<^verbatim>\<open>INSERT OR REPLACE\<close> of one record: the rows that hold the same symbol are deleted,
  then the record is inserted under a fresh id.
\<close>

definition insert_or_replace :: "database \<Rightarrow> ativo \<Rightarrow> database" where
  "insert_or_replace db a =
     (let n = Suc (fold max (map row_id (ativos_table db)) (seq db));
          kept = filter (\<lambda>r. simbolo (dados r) \<noteq> simbolo a) (ativos_table db)
      in \<lparr>ativos_table = kept @ [\<lparr>row_id = n, dados = a\<rparr>], seq = n\<rparr>)"

definition salvar_ativos :: "database \<Rightarrow> ativo list \<Rightarrow> database" where
  "salvar_ativos db ativos = fold (\<lambda>a d. insert_or_replace d a) ativos db"

text \<open>
  \<^verbatim>\<open>SELECT * FROM ativos ORDER BY dividend_yield DESC\<close>. Rows of equal yield are kept
  in table order here; SQLite promises no order among them.
\<close>

definition carregar_ativos :: "database \<Rightarrow> row list" where
  "carregar_ativos db = sort_key (\<lambda>r. - dividend_yield (dados r)) (ativos_table db)"

section \<open>Sample inputs\<close>

text \<open>
  Provider replies and records on which the theorems below are run. In each of them
  \<^verbatim>\<open>yf.set_session\<close> raises \<^verbatim>\<open>AttributeError\<close>. \<open>sample_two_bars\<close> is the case of
  two sessions with open 100 and close 102 and four dividends of 1: \<open>fallback_two_bars\<close>
  is the record that \<^verbatim>\<open>RobustDataLoader\<close> returns for it and \<open>plain_two_bars\<close> the one
  that \<^verbatim>\<open>DataLoader\<close> returns.
\<close>

definition sample_two_bars :: reply where
  "sample_two_bars =
     \<lparr>session = None,
      set_session = Some (Exception ''AttributeError''),
      history = Inr [\<lparr>Open = 100, Close = 100\<rparr>, \<lparr>Open = 100, Close = 102\<rparr>],
      info = Inr [(''longName'', ''Vale S.A.''), (''sector'', ''Basic Materials'')],
      dividends = Inr [1, 1, 1, 1],
      now = 0\<rparr>"

definition sample_one_bar :: reply where
  "sample_one_bar =
     \<lparr>session = None,
      set_session = Some (Exception ''AttributeError''),
      history = Inr [\<lparr>Open = 50, Close = 51\<rparr>],
      info = Inr [],
      dividends = Inr [2, 1, 1, 1, 1],
      now = 0\<rparr>"

definition sample_info_fails :: reply where
  "sample_info_fails =
     \<lparr>session = None,
      set_session = Some (Exception ''AttributeError''),
      history = Inr [\<lparr>Open = 10, Close = 10\<rparr>],
      info = Inl (Exception ''HTTPError''),
      dividends = Inr [],
      now = 0\<rparr>"

definition fallback_two_bars :: ativo where
  "fallback_two_bars =
     \<lparr>simbolo = ''VALE3'', nome = ''Vale SA'', tipo = ''ACAO'', preco_atual = 6890 / 100,
      dividend_yield = 65 / 10, ultimo_dividendo = 50 / 100,
      frequencia_pagamento = ''Trimestral/Semestral'', setor = ''N/A'',
      variacao_dia = Finite 0, atualizado_em = 0\<rparr>"

definition plain_two_bars :: ativo where
  "plain_two_bars =
     \<lparr>simbolo = ''VALE3'', nome = ''Vale S.A.'', tipo = ''ACAO'', preco_atual = 102,
      dividend_yield = 200 / 17, ultimo_dividendo = 1,
      frequencia_pagamento = ''Trimestral/Semestral'', setor = ''Basic Materials'',
      variacao_dia = Finite 2, atualizado_em = 0\<rparr>"

definition plain_one_bar :: ativo where
  "plain_one_bar =
     \<lparr>simbolo = ''XPTO3'', nome = ''XPTO3.SA'', tipo = ''ACAO'', preco_atual = 51,
      dividend_yield = 400 / 17, ultimo_dividendo = 1,
      frequencia_pagamento = ''Trimestral/Semestral'', setor = ''N/A'',
      variacao_dia = Finite 0, atualizado_em = 0\<rparr>"

definition sample_row_data :: "string \<Rightarrow> real \<Rightarrow> ativo" where
  "sample_row_data s p =
     \<lparr>simbolo = s, nome = s, tipo = ''ACAO'', preco_atual = p, dividend_yield = 5,
      ultimo_dividendo = 1 / 2, frequencia_pagamento = ''Trimestral/Semestral'',
      setor = ''N/A'', variacao_dia = Finite 0, atualizado_em = 0\<rparr>"

section \<open>Auxiliary facts\<close>

subsection \<open>The collection loops\<close>

lemma collect_eq:
  "collect fetch prov ss acc = acc @ List.map_filter (\<lambda>s. fetched (fetch (prov s) s)) ss"
  by (induction ss arbitrary: acc)
     (auto simp: fetched_def List.map_filter_simps split: sum.splits option.splits)

lemma map_filter_app: "List.map_filter f (xs @ ys) = List.map_filter f xs @ List.map_filter f ys"
  by (simp add: List.map_filter_def)

lemma map_filter_Pair:
  "List.map_filter (\<lambda>(t, s). f t s) (map (Pair t) xs) = List.map_filter (f t) xs"
  by (simp add: List.map_filter_def filter_map comp_def)

lemma RobustDataLoader_loop_eq:
  "RobustDataLoader_loop prov reg acc =
     acc @ List.map_filter (\<lambda>s. fetched (RobustDataLoader_fetch (prov s) s)) (concat (map snd reg))"
  by (induction reg arbitrary: acc) (auto simp: collect_eq map_filter_app List.map_filter_simps)

lemma DataLoader_loop_eq:
  "DataLoader_loop prov reg acc =
     acc @ List.map_filter (\<lambda>(t, s). fetched (DataLoader_fetch t (prov s) s))
             (concat (map (\<lambda>(t, lista). map (Pair t) lista) reg))"
proof (induction reg arbitrary: acc)
  case Nil
  then show ?case by (simp add: List.map_filter_simps)
next
  case (Cons p reg)
  obtain t lista where p: "p = (t, lista)" by (cases p)
  have "List.map_filter (\<lambda>(t, s). fetched (DataLoader_fetch t (prov s) s)) (map (Pair t) lista) =
        List.map_filter (\<lambda>s. fetched (DataLoader_fetch t (prov s) s)) lista"
    by (rule map_filter_Pair)
  then show ?case
    by (simp add: p Cons.IH collect_eq map_filter_app)
qed

subsection \<open>Rounding\<close>

lemma rint_of_int: "rint (of_int k) = k"
  by (simp add: rint_def Let_def)

lemma round2_hundredths: "round2 (of_int k / 100) = of_int k / 100"
  by (simp add: round2_def rint_of_int)

lemma round2_idem: "round2 (round2 x) = round2 x"
  unfolding round2_def[of "of_int _ / 100"] using round2_hundredths
  by (simp add: round2_def rint_of_int)

lemma round2_mock_prices: "\<forall>p \<in> snd ` set mock_prices. round2 p = p"
  by (simp add: mock_prices_def round2_def rint_def Let_def)

lemma round2_mock_price: "round2 (get_mock_price s) = get_mock_price s"
proof (cases "map_of mock_prices s")
  case None
  then show ?thesis
    by (simp add: get_mock_price_def dict_get_def round2_def rint_def Let_def)
next
  case (Some p)
  then have "(s, p) \<in> set mock_prices" by (rule map_of_SomeD)
  then have "p \<in> snd ` set mock_prices" by force
  with round2_mock_prices have "round2 p = p" by blast
  with Some show ?thesis by (simp add: get_mock_price_def dict_get_def)
qed

lemma round2_consts: "round2 (65 / 10) = 65 / 10" "round2 (50 / 100) = 50 / 100"
  by (simp_all add: round2_def rint_def Let_def)

lemma mock_prices_pos: "\<forall>p \<in> snd ` set mock_prices. 0 < p"
  by (simp add: mock_prices_def)

lemma get_mock_price_pos: "0 < get_mock_price s"
proof (cases "map_of mock_prices s")
  case None
  then show ?thesis by (simp add: get_mock_price_def dict_get_def)
next
  case (Some p)
  then have "(s, p) \<in> set mock_prices" by (rule map_of_SomeD)
  then have "p \<in> snd ` set mock_prices" by force
  with mock_prices_pos have "0 < p" by blast
  with Some show ?thesis by (simp add: get_mock_price_def dict_get_def)
qed

subsection \<open>What a fetch returns\<close>

lemma get_yfinance_data_None:
  "get_yfinance_data rp s = None \<longleftrightarrow>
     (case set_session rp of
        Some e \<Rightarrow> True
      | None \<Rightarrow> (case history rp of Inl e \<Rightarrow> True | Inr hist \<Rightarrow> hist = []))"
  by (auto simp: get_yfinance_data_def Let_def split: sum.splits prod.splits option.splits)

lemma get_yfinance_data_Some:
  "get_yfinance_data rp s = Some d \<Longrightarrow> history rp = Inr hist \<Longrightarrow>
     set_session rp = None \<and> hist \<noteq> [] \<and> preco_atual d = round2 (Close (last hist))
     \<and> dividend_yield d = round2 (safe_dividend_calc (dividends rp) (Close (last hist)))
     \<and> ultimo_dividendo d = round2 (safe_last_dividend (dividends rp))
     \<and> variacao_dia d = np_round2 (variacao_of (Close (last hist))
          (if 1 < length hist then Open (last hist) else Close (hd hist)))"
  by (auto simp: get_yfinance_data_def Let_def
      split: sum.splits if_splits prod.splits option.splits)

lemma get_fallback_data_rounded:
  "get_fallback_data rp s = Some d \<Longrightarrow>
     round2 (preco_atual d) = preco_atual d
     \<and> round2 (dividend_yield d) = dividend_yield d
     \<and> round2 (ultimo_dividendo d) = ultimo_dividendo d"
  using round2_consts by (auto simp: get_fallback_data_def round2_mock_price)

lemma get_yfinance_data_rounded:
  "get_yfinance_data rp s = Some d \<Longrightarrow>
     round2 (preco_atual d) = preco_atual d
     \<and> round2 (dividend_yield d) = dividend_yield d
     \<and> round2 (ultimo_dividendo d) = ultimo_dividendo d"
  by (auto simp: get_yfinance_data_def Let_def round2_idem
      split: sum.splits if_splits prod.splits option.splits)

lemma RobustDataLoader_fetch_cases:
  "RobustDataLoader_fetch rp s = Inr (Some d) \<Longrightarrow>
     get_yfinance_data rp s = Some d \<or> get_fallback_data rp s = Some d"
  by (auto simp: RobustDataLoader_fetch_def Let_def split: option.splits if_splits)

lemma RobustDataLoader_fetch_set_session:
  "session rp = None \<Longrightarrow> set_session rp = Some e \<Longrightarrow>
     RobustDataLoader_fetch rp s = Inr (get_fallback_data rp s)"
  by (simp add: RobustDataLoader_fetch_def Let_def get_yfinance_data_None)

lemma DataLoader_fetch_Some:
  "DataLoader_fetch t rp s = Inr (Some d) \<Longrightarrow> history rp = Inr hist \<Longrightarrow>
     hist \<noteq> [] \<and> preco_atual d = Close (last hist)
     \<and> dividend_yield d = safe_dividend_calc (dividends rp) (Close (last hist))
     \<and> ultimo_dividendo d = safe_last_dividend (dividends rp)
     \<and> variacao_dia d = variacao_of (Close (last hist))
          (if 1 < length hist then Open (last hist) else Close (last hist))"
  by (auto simp: DataLoader_fetch_def Let_def split: sum.splits if_splits)

subsection \<open>The samples\<close>

lemmas fetch_defs =
  RobustDataLoader_fetch_def get_yfinance_data_def get_fallback_data_def DataLoader_fetch_def
  Let_def variacao_of_def np_div_def safe_dividend_calc_def safe_last_dividend_def mean_def
  tail_def round2_def rint_def dict_get_def nomes_fallback_def mock_prices_def get_mock_price_def
  RobustDataLoader_ativos_monitorados_def RobustDataLoader_get_frequencia_pagamento_def
  DataLoader_get_frequencia_pagamento_def fetched_def

lemma sample_fetches:
  "RobustDataLoader_fetch sample_two_bars ''VALE3.SA'' = Inr (Some fallback_two_bars)"
  "DataLoader_fetch ''ACAO'' sample_two_bars ''VALE3.SA'' = Inr (Some plain_two_bars)"
  "DataLoader_fetch ''ACAO'' sample_one_bar ''XPTO3.SA'' = Inr (Some plain_one_bar)"
  by (simp_all add: sample_two_bars_def sample_one_bar_def fallback_two_bars_def
        plain_two_bars_def plain_one_bar_def fetch_defs)

lemma sample_replies:
  "history sample_two_bars = Inr [\<lparr>Open = 100, Close = 100\<rparr>, \<lparr>Open = 100, Close = 102\<rparr>]"
  "history sample_one_bar = Inr [\<lparr>Open = 50, Close = 51\<rparr>]"
  "history sample_info_fails = Inr [\<lparr>Open = 10, Close = 10\<rparr>]"
  "dividends sample_two_bars = Inr [1, 1, 1, 1]"
  "dividends sample_one_bar = Inr [2, 1, 1, 1, 1]"
  "info sample_info_fails = Inl (Exception ''HTTPError'')"
  "session sample_two_bars = None"
  "session sample_info_fails = None"
  "set_session sample_two_bars = Some (Exception ''AttributeError'')"
  "set_session sample_info_fails = Some (Exception ''AttributeError'')"
  by (simp_all add: sample_two_bars_def sample_one_bar_def sample_info_fails_def)

lemmas db_defs =
  salvar_ativos_def insert_or_replace_def init_db_def carregar_ativos_def sample_row_data_def
  Let_def

subsection \<open>The table\<close>

lemma table_insert_or_replace:
  "ativos_table (insert_or_replace db a) =
     filter (\<lambda>r. simbolo (dados r) \<noteq> simbolo a) (ativos_table db)
     @ [\<lparr>row_id = Suc (fold max (map row_id (ativos_table db)) (seq db)), dados = a\<rparr>]"
  by (simp add: insert_or_replace_def Let_def)

lemma salvar_ativos_Nil: "salvar_ativos db [] = db"
  by (simp add: salvar_ativos_def)

lemma salvar_ativos_Cons: "salvar_ativos db (a # as) = salvar_ativos (insert_or_replace db a) as"
  by (simp add: salvar_ativos_def)

lemma salvar_ativos_append:
  "salvar_ativos db (as @ bs) = salvar_ativos (salvar_ativos db as) bs"
  by (simp add: salvar_ativos_def)

lemma salvar_ativos_frame:
  "filter (\<lambda>r. simbolo (dados r) \<notin> simbolo ` set ativos) (ativos_table (salvar_ativos db ativos)) =
   filter (\<lambda>r. simbolo (dados r) \<notin> simbolo ` set ativos) (ativos_table db)"
proof -
  have "simbolo ` set as \<subseteq> S \<Longrightarrow>
        filter (\<lambda>r. simbolo (dados r) \<notin> S) (ativos_table (salvar_ativos db as)) =
        filter (\<lambda>r. simbolo (dados r) \<notin> S) (ativos_table db)" for as S db
  proof (induction as arbitrary: db)
    case Nil
    then show ?case by (simp add: salvar_ativos_Nil)
  next
    case (Cons a as)
    then have "simbolo a \<in> S" and "simbolo ` set as \<subseteq> S" by auto
    then show ?case
      using Cons.IH[of "insert_or_replace db a"]
      by (auto simp: salvar_ativos_Cons table_insert_or_replace intro: filter_cong)
  qed
  then show ?thesis by blast
qed

lemma set_carregar_ativos: "set (carregar_ativos db) = set (ativos_table db)"
  by (simp add: carregar_ativos_def)

lemma rows_of_last_write:
  "map dados (filter (\<lambda>r. simbolo (dados r) = simbolo b)
     (ativos_table (salvar_ativos db (as @ [b])))) = [b]"
proof -
  have "filter (\<lambda>r. simbolo (dados r) = simbolo b)
          (filter (\<lambda>r. simbolo (dados r) \<noteq> simbolo b) rows) = []" for rows :: "row list"
    by (induction rows) auto
  then show ?thesis
    by (simp add: salvar_ativos_append salvar_ativos_Cons salvar_ativos_Nil
        table_insert_or_replace)
qed

lemma same_symbol_overwrites:
  assumes "simbolo a = simbolo b"
  shows "map dados (ativos_table (insert_or_replace (insert_or_replace db a) b)) =
         map dados (ativos_table (insert_or_replace db b))"
proof -
  have "filter (\<lambda>r. simbolo (dados r) \<noteq> simbolo b)
          (filter (\<lambda>r. simbolo (dados r) \<noteq> simbolo b) rows) =
        filter (\<lambda>r. simbolo (dados r) \<noteq> simbolo b) rows" for rows :: "row list"
    by (induction rows) auto
  with assms show ?thesis
    by (simp add: table_insert_or_replace)
qed

section \<open>The fallback record\<close>

text \<open>
  C1 (as amended). When the session was created and the price history is empty, or the
  history lookup raised, \<^verbatim>\<open>RobustDataLoader\<close> returns the static fallback record:
  the price of the mock table (10.0 for a symbol the table lacks), yield 6.5, last
  dividend 0.50, day change 0.0, sector \<^verbatim>\<open>N/A\<close>, and the fallback name (the raw symbol
  when there is none). \<^verbatim>\<open>DataLoader\<close> of app.py has no fallback: on an empty history
  it appends no record.
\<close>

theorem fallback_on_empty_history:
  "(session rp = None \<and> (history rp = Inr [] \<or> history rp = Inl e) \<longrightarrow>
      RobustDataLoader_fetch rp s =
        Inr (Some \<lparr>simbolo = replace_SA s,
                    nome = (case map_of nomes_fallback s of None \<Rightarrow> s | Some n \<Rightarrow> n),
                    tipo = tipo_of RobustDataLoader_ativos_monitorados s,
                    preco_atual = (case map_of mock_prices s of None \<Rightarrow> 10 | Some p \<Rightarrow> p),
                    dividend_yield = 65 / 10,
                    ultimo_dividendo = 50 / 100,
                    frequencia_pagamento = RobustDataLoader_get_frequencia_pagamento s,
                    setor = ''N/A'',
                    variacao_dia = Finite 0,
                    atualizado_em = now rp\<rparr>))
   \<and> (info rp = Inr d \<and> history rp = Inr [] \<longrightarrow> DataLoader_fetch t rp s = Inr None)"
  by (auto simp: RobustDataLoader_fetch_def get_yfinance_data_def get_fallback_data_def
        get_mock_price_def dict_get_def DataLoader_fetch_def split: option.splits)

theorem fallback_on_empty_history_witness:
  "RobustDataLoader_fetch
     \<lparr>session = None, set_session = Some (Exception ''AttributeError''),
        history = Inr [], info = Inr [], dividends = Inr [], now = 0\<rparr>
     ''MXRF11.SA'' =
     Inr (Some \<lparr>simbolo = ''MXRF11'', nome = ''Maxi Renda FII'', tipo = ''FII'',
                 preco_atual = 1025 / 100, dividend_yield = 65 / 10,
                 ultimo_dividendo = 50 / 100, frequencia_pagamento = ''Trimestral'',
                 setor = ''N/A'', variacao_dia = Finite 0, atualizado_em = 0\<rparr>)
   \<and> DataLoader_fetch ''FII''
     \<lparr>session = None, set_session = Some (Exception ''AttributeError''),
        history = Inr [], info = Inr [], dividends = Inr [], now = 0\<rparr>
     ''MXRF11.SA'' = Inr None"
  using fallback_on_empty_history
    [of "\<lparr>session = None, set_session = Some (Exception ''AttributeError''),
            history = Inr [], info = Inr [], dividends = Inr [], now = 0\<rparr>"
        undefined "''MXRF11.SA''" "[]" "''FII''"]
  by (simp add: nomes_fallback_def mock_prices_def RobustDataLoader_ativos_monitorados_def
        RobustDataLoader_get_frequencia_pagamento_def)

text \<open>
  C1 as it is written fails on \<^verbatim>\<open>DataLoader.get_ativos_info\<close> of app.py: the provider
  answers with an empty history and well-formed metadata, and no record comes back.
\<close>

theorem DataLoader_empty_history_counterexample:
  "fetched (DataLoader_fetch ''FII''
     \<lparr>session = None, set_session = Some (Exception ''AttributeError''),
        history = Inr [], info = Inr [], dividends = Inr [], now = 0\<rparr>
     ''MXRF11.SA'') = None"
  by (simp add: DataLoader_fetch_def fetched_def)

section \<open>Payment frequency\<close>

text \<open>
  C2. The label is meant to follow the category: FII monthly, ETF quarterly, ACAO
  quarterly/semiannual. \<^verbatim>\<open>DataLoader\<close> of app.py does so. \<^verbatim>\<open>RobustDataLoader\<close>
  tests the text of the symbol instead, and no symbol contains \<^verbatim>\<open>FII\<close>: the fund
  \<^verbatim>\<open>MXRF11.SA\<close> is labelled quarterly.
\<close>

theorem frequencia_pagamento_of_FII_symbol:
  "tipo_of RobustDataLoader_ativos_monitorados ''MXRF11.SA'' = ''FII''
   \<and> RobustDataLoader_get_frequencia_pagamento ''MXRF11.SA'' = ''Trimestral''
   \<and> map_option frequencia_pagamento (get_fallback_data rp ''MXRF11.SA'') = Some ''Trimestral''
   \<and> DataLoader_get_frequencia_pagamento ''FII'' = ''Mensal''"
  by (simp add: RobustDataLoader_ativos_monitorados_def
        RobustDataLoader_get_frequencia_pagamento_def get_fallback_data_def
        DataLoader_get_frequencia_pagamento_def dict_get_def)

section \<open>The dividend yield\<close>

text \<open>
  C3 (as amended). The estimate that \<^verbatim>\<open>_safe_dividend_calc\<close> and
  \<^verbatim>\<open>_estimate_dividend_yield\<close> return is 0.0 when the current price is at most 0 or
  the dividend history is empty; otherwise it is the average of the last four dividends
  (of all of them when there are fewer), times 12, divided by the current price, times
  100, and it is not rounded. \<^verbatim>\<open>DataLoader\<close> of app.py stores it in the record as it
  is. The record of \<^verbatim>\<open>RobustDataLoader\<close> holds the placeholder 6.5 whenever
  \<^verbatim>\<open>yf.set_session\<close> raises.
\<close>

theorem dividend_yield_estimate:
  "safe_dividend_calc (Inr ds) p =
     (if p \<le> 0 \<or> ds = [] then 0 else mean (tail 4 ds) * 12 / p * 100)
   \<and> (DataLoader_fetch t rp s = Inr (Some d') \<and> history rp = Inr hist \<longrightarrow>
        dividend_yield d' = safe_dividend_calc (dividends rp) (Close (last hist)))
   \<and> (session rp = None \<and> set_session rp = Some e \<longrightarrow>
        map_option dividend_yield (fetched (RobustDataLoader_fetch rp s)) = Some (65 / 10))"
proof -
  have "safe_dividend_calc (Inr ds) p =
     (if p \<le> 0 \<or> ds = [] then 0 else mean (tail 4 ds) * 12 / p * 100)"
    by (auto simp: safe_dividend_calc_def)
  moreover have "map_option dividend_yield (fetched (RobustDataLoader_fetch rp s)) = Some (65 / 10)"
    if "session rp = None" and "set_session rp = Some e"
    using RobustDataLoader_fetch_set_session[OF that, of s]
    by (simp add: fetched_def get_fallback_data_def)
  ultimately show ?thesis
    using DataLoader_fetch_Some[of t rp s d' hist] by blast
qed

theorem dividend_yield_estimate_witness:
  "safe_dividend_calc (Inr [1, 1, 1, 1]) 102 = mean (tail 4 [1, 1, 1, 1]) * 12 / 102 * 100
   \<and> DataLoader_fetch ''ACAO'' sample_two_bars ''VALE3.SA'' = Inr (Some plain_two_bars)
   \<and> history sample_two_bars = Inr [\<lparr>Open = 100, Close = 100\<rparr>, \<lparr>Open = 100, Close = 102\<rparr>]
   \<and> dividends sample_two_bars = Inr [1, 1, 1, 1]
   \<and> dividend_yield plain_two_bars = safe_dividend_calc (Inr [1, 1, 1, 1]) 102
   \<and> session sample_two_bars = None
   \<and> set_session sample_two_bars = Some (Exception ''AttributeError'')
   \<and> map_option dividend_yield (fetched (RobustDataLoader_fetch sample_two_bars ''VALE3.SA'')) =
       Some (65 / 10)"
  using dividend_yield_estimate
      [where ds = "[1, 1, 1, 1]" and p = 102 and rp = sample_two_bars and s = "''VALE3.SA''"
         and t = "''ACAO''" and d' = plain_two_bars and e = "Exception ''AttributeError''"
         and hist = "[\<lparr>Open = 100, Close = 100\<rparr>, \<lparr>Open = 100, Close = 102\<rparr>]"]
    sample_fetches sample_replies
  by simp

text \<open>
  C3 as it is written fails on \<^verbatim>\<open>DataLoader\<close> of app.py: one dividend of 1 at a
  price of 7 gives the yield 1200/7 in the record, where the rounded estimate is 171.43.
\<close>

theorem dividend_yield_unrounded_counterexample:
  "map_option dividend_yield
     (fetched (DataLoader_fetch ''FII''
        \<lparr>session = None, set_session = Some (Exception ''AttributeError''),
           history = Inr [\<lparr>Open = 7, Close = 7\<rparr>], info = Inr [],
           dividends = Inr [1], now = 0\<rparr>
        ''MXRF11.SA'')) = Some (1200 / 7)
   \<and> round2 (mean (tail 4 [1]) * 12 / 7 * 100) = 17143 / 100"
  by (simp add: fetch_defs)

section \<open>The current price\<close>

text \<open>
  C4 (as amended). A fallback record has a strictly positive price, and
  \<^verbatim>\<open>RobustDataLoader\<close> returns the fallback record, with the mock price of the symbol,
  whenever \<^verbatim>\<open>yf.set_session\<close> raises. \<^verbatim>\<open>DataLoader\<close> of app.py makes no check: the
  price of its record is the last close itself, so it is strictly positive exactly when
  the last close is.
\<close>

theorem preco_atual_positive:
  "(get_fallback_data rp s = Some d \<longrightarrow> 0 < preco_atual d)
   \<and> (session rp = None \<and> set_session rp = Some e \<longrightarrow>
        map_option preco_atual (fetched (RobustDataLoader_fetch rp s)) = Some (get_mock_price s)
        \<and> 0 < get_mock_price s)
   \<and> (DataLoader_fetch t rp s = Inr (Some d') \<and> history rp = Inr hist \<longrightarrow>
        (0 < preco_atual d' \<longleftrightarrow> 0 < Close (last hist)))"
proof -
  have a: "get_fallback_data rp s = Some d \<Longrightarrow> 0 < preco_atual d"
    by (auto simp: get_fallback_data_def get_mock_price_pos)
  have b: "map_option preco_atual (fetched (RobustDataLoader_fetch rp s)) = Some (get_mock_price s)"
    if "session rp = None" and "set_session rp = Some e"
    using RobustDataLoader_fetch_set_session[OF that, of s]
    by (simp add: fetched_def get_fallback_data_def)
  have c: "DataLoader_fetch t rp s = Inr (Some d') \<Longrightarrow> history rp = Inr hist \<Longrightarrow>
      (0 < preco_atual d' \<longleftrightarrow> 0 < Close (last hist))"
    using DataLoader_fetch_Some[of t rp s d' hist] by simp
  from a b c get_mock_price_pos[of s] show ?thesis by blast
qed

theorem preco_atual_positive_witness:
  "get_fallback_data sample_two_bars ''VALE3.SA'' = Some fallback_two_bars
   \<and> 0 < preco_atual fallback_two_bars
   \<and> session sample_two_bars = None
   \<and> set_session sample_two_bars = Some (Exception ''AttributeError'')
   \<and> map_option preco_atual (fetched (RobustDataLoader_fetch sample_two_bars ''VALE3.SA'')) =
       Some (get_mock_price ''VALE3.SA'')
   \<and> 0 < get_mock_price ''VALE3.SA''
   \<and> DataLoader_fetch ''ACAO'' sample_two_bars ''VALE3.SA'' = Inr (Some plain_two_bars)
   \<and> history sample_two_bars = Inr [\<lparr>Open = 100, Close = 100\<rparr>, \<lparr>Open = 100, Close = 102\<rparr>]
   \<and> (0 < preco_atual plain_two_bars) = (0 < Close \<lparr>Open = 100, Close = 102\<rparr>)"
proof -
  have h: "get_fallback_data sample_two_bars ''VALE3.SA'' = Some fallback_two_bars"
    by (simp add: sample_two_bars_def fallback_two_bars_def fetch_defs)
  from preco_atual_positive
      [where rp = sample_two_bars and s = "''VALE3.SA''" and t = "''ACAO''"
         and d = fallback_two_bars and d' = plain_two_bars
         and e = "Exception ''AttributeError''"
         and hist = "[\<lparr>Open = 100, Close = 100\<rparr>, \<lparr>Open = 100, Close = 102\<rparr>]"]
    h sample_fetches sample_replies
  show ?thesis by simp
qed

text \<open>
  C4 as it is written fails on \<^verbatim>\<open>DataLoader\<close> of app.py: a history of one bar that
  closes at 0 gives a record whose price is 0.
\<close>

theorem preco_atual_zero_counterexample:
  "map_option preco_atual
     (fetched (DataLoader_fetch ''ACAO''
        \<lparr>session = None, set_session = Some (Exception ''AttributeError''),
           history = Inr [\<lparr>Open = 0, Close = 0\<rparr>], info = Inr [], dividends = Inr [],
           now = 0\<rparr>
        ''VALE3.SA'')) = Some 0"
  by (simp add: fetch_defs)

section \<open>The collection loop\<close>

text \<open>
  C5 (as amended). An exception that leaves the body of the loop for one symbol is
  caught by the handler of the loop: that symbol adds no record, and every other symbol
  adds what its own fetch gives, so a cycle returns, in registry order, the records of
  the symbols whose body returned one. Not every exception raised during a fetch leaves
  the body. In \<^verbatim>\<open>RobustDataLoader\<close> only a failure to create the session does:
  \<^verbatim>\<open>_get_yfinance_data\<close> catches what \<^verbatim>\<open>yf.set_session\<close> and the lookups raise, and
  the symbol gets the fallback record. In \<^verbatim>\<open>DataLoader\<close> of app.py an exception of the
  metadata or of the history lookup leaves the body, and one of the dividend lookup is
  swallowed, the record being built all the same.
\<close>

theorem get_ativos_info_skips_raising_symbols:
  "RobustDataLoader_get_ativos_info prov =
     List.map_filter (\<lambda>s. fetched (RobustDataLoader_fetch (prov s) s))
       (concat (map snd RobustDataLoader_ativos_monitorados))
   \<and> DataLoader_get_ativos_info prov =
     List.map_filter (\<lambda>(t, s). fetched (DataLoader_fetch t (prov s) s))
       (concat (map (\<lambda>(t, lista). map (Pair t) lista) DataLoader_ativos_monitorados))
   \<and> fetched (Inl e) = None
   \<and> (RobustDataLoader_fetch rp s = Inl e \<longleftrightarrow> session rp = Some e)
   \<and> (DataLoader_fetch t rp s = Inl e \<longleftrightarrow>
        info rp = Inl e \<or> ((\<exists>d. info rp = Inr d) \<and> history rp = Inl e))"
proof -
  have a: "RobustDataLoader_fetch rp s = Inl e \<longleftrightarrow> session rp = Some e"
    by (auto simp: RobustDataLoader_fetch_def Let_def split: option.splits)
  have b: "DataLoader_fetch t rp s = Inl e \<longleftrightarrow>
        info rp = Inl e \<or> ((\<exists>d. info rp = Inr d) \<and> history rp = Inl e)"
    by (auto simp: DataLoader_fetch_def Let_def split: sum.splits)
  from a b show ?thesis
    by (simp add: RobustDataLoader_get_ativos_info_def DataLoader_get_ativos_info_def
        RobustDataLoader_loop_eq DataLoader_loop_eq fetched_def)
qed

text \<open>
  C5 as it is written fails: in \<^verbatim>\<open>RobustDataLoader\<close> the exception of
  \<^verbatim>\<open>yf.set_session\<close> and a raising history lookup are caught before the loop and the
  symbol is not skipped, it gets the fallback record; in \<^verbatim>\<open>DataLoader\<close> of app.py a
  raising dividend lookup still gives a record.
\<close>

theorem raising_lookup_not_skipped_counterexample:
  "fetched (RobustDataLoader_fetch
     \<lparr>session = None, set_session = Some (Exception ''AttributeError''),
        history = Inl (Exception ''Timeout''), info = Inr [], dividends = Inr [], now = 0\<rparr>
     ''MXRF11.SA'') =
     Some \<lparr>simbolo = ''MXRF11'', nome = ''Maxi Renda FII'', tipo = ''FII'',
            preco_atual = 1025 / 100, dividend_yield = 65 / 10,
            ultimo_dividendo = 50 / 100, frequencia_pagamento = ''Trimestral'',
            setor = ''N/A'', variacao_dia = Finite 0, atualizado_em = 0\<rparr>
   \<and> fetched (DataLoader_fetch ''FII''
     \<lparr>session = None, set_session = Some (Exception ''AttributeError''),
        history = Inr [\<lparr>Open = 10, Close = 10\<rparr>], info = Inr [],
        dividends = Inl (Exception ''Timeout''), now = 0\<rparr>
     ''MXRF11.SA'') =
     Some \<lparr>simbolo = ''MXRF11'', nome = ''MXRF11.SA'', tipo = ''FII'',
            preco_atual = 10, dividend_yield = 0, ultimo_dividendo = 0,
            frequencia_pagamento = ''Mensal'', setor = ''N/A'',
            variacao_dia = Finite 0, atualizado_em = 0\<rparr>"
  by (simp add: fetch_defs)

section \<open>A failing metadata lookup\<close>




section \<open>The day change\<close>

text \<open>
  C7 (as amended). In \<^verbatim>\<open>DataLoader\<close> of app.py, with \<open>cur\<close> the last close and
  \<open>prior\<close> the last open (\<open>cur\<close> itself when the history has one bar), the day change
  of the record is \<open>(cur - prior) / prior * 100\<close> when \<open>prior\<close> is not zero; with one
  bar whose close is not zero it is 0. When \<open>prior\<close> is zero the division gives no
  finite number. The record of \<^verbatim>\<open>RobustDataLoader\<close> has the day change 0.0 whenever
  \<^verbatim>\<open>yf.set_session\<close> raises.
\<close>

theorem variacao_dia_formula:
  "(DataLoader_fetch t rp s = Inr (Some d') \<and> history rp = Inr hist \<longrightarrow>
      variacao_dia d' =
        (let cur = Close (last hist);
             prior = (if 1 < length hist then Open (last hist) else cur)
         in if prior = 0 then NonFinite
            else Finite ((cur - prior) / prior * 100)))
   \<and> (DataLoader_fetch t rp s = Inr (Some d') \<and> history rp = Inr [b] \<and> Close b \<noteq> 0 \<longrightarrow>
      variacao_dia d' = Finite 0)
   \<and> (session rp = None \<and> set_session rp = Some e \<longrightarrow>
      map_option variacao_dia (fetched (RobustDataLoader_fetch rp s)) = Some (Finite 0))"
proof -
  have a: "DataLoader_fetch t rp s = Inr (Some d') \<Longrightarrow> history rp = Inr hist \<Longrightarrow>
      variacao_dia d' =
        (let cur = Close (last hist);
             prior = (if 1 < length hist then Open (last hist) else cur)
         in if prior = 0 then NonFinite
            else Finite ((cur - prior) / prior * 100))"
    using DataLoader_fetch_Some[of t rp s d' hist]
    by (simp add: variacao_of_def np_div_def Let_def)
  have b: "DataLoader_fetch t rp s = Inr (Some d') \<Longrightarrow> history rp = Inr [b] \<Longrightarrow> Close b \<noteq> 0
        \<Longrightarrow> variacao_dia d' = Finite 0"
    using DataLoader_fetch_Some[of t rp s d' "[b]"]
    by (simp add: variacao_of_def np_div_def)
  have c: "map_option variacao_dia (fetched (RobustDataLoader_fetch rp s)) = Some (Finite 0)"
    if "session rp = None" and "set_session rp = Some e"
    using RobustDataLoader_fetch_set_session[OF that, of s]
    by (simp add: fetched_def get_fallback_data_def)
  from a b c show ?thesis by blast
qed

theorem variacao_dia_formula_witness:
  "DataLoader_fetch ''ACAO'' sample_two_bars ''VALE3.SA'' = Inr (Some plain_two_bars)
   \<and> history sample_two_bars = Inr [\<lparr>Open = 100, Close = 100\<rparr>, \<lparr>Open = 100, Close = 102\<rparr>]
   \<and> variacao_dia plain_two_bars = Finite ((102 - 100) / 100 * 100)
   \<and> DataLoader_fetch ''ACAO'' sample_one_bar ''XPTO3.SA'' = Inr (Some plain_one_bar)
   \<and> history sample_one_bar = Inr [\<lparr>Open = 50, Close = 51\<rparr>]
   \<and> variacao_dia plain_one_bar = Finite 0
   \<and> session sample_two_bars = None
   \<and> set_session sample_two_bars = Some (Exception ''AttributeError'')
   \<and> map_option variacao_dia (fetched (RobustDataLoader_fetch sample_two_bars ''VALE3.SA'')) =
       Some (Finite 0)"
  using variacao_dia_formula
      [where rp = sample_two_bars and s = "''VALE3.SA''" and t = "''ACAO''"
         and d' = plain_two_bars and e = "Exception ''AttributeError''"
         and hist = "[\<lparr>Open = 100, Close = 100\<rparr>, \<lparr>Open = 100, Close = 102\<rparr>]"]
    variacao_dia_formula
      [where rp = sample_one_bar and s = "''XPTO3.SA''" and t = "''ACAO''"
         and d' = plain_one_bar and b = "\<lparr>Open = 50, Close = 51\<rparr>"]
    sample_fetches sample_replies
  by simp

text \<open>
  C7 as it is written fails on \<^verbatim>\<open>DataLoader\<close> of app.py: with one bar that closes at
  0 the prior price equals the current one and the day change is not 0, the division of
  zero by zero gives no number.
\<close>

theorem variacao_dia_zero_close_counterexample:
  "map_option variacao_dia
     (fetched (DataLoader_fetch ''ACAO''
        \<lparr>session = None, set_session = Some (Exception ''AttributeError''),
           history = Inr [\<lparr>Open = 0, Close = 0\<rparr>], info = Inr [], dividends = Inr [],
           now = 0\<rparr>
        ''VALE3.SA'')) = Some NonFinite
   \<and> NonFinite \<noteq> Finite 0"
  by (simp add: fetch_defs)

section \<open>Two decimals\<close>

text \<open>
  C8 (as amended). Every record of \<^verbatim>\<open>RobustDataLoader\<close>, from the live path or the
  fallback path, has a price, a dividend yield and a last dividend of at most 2
  decimals: rounding them again changes nothing. \<^verbatim>\<open>DataLoader\<close> of app.py returns the
  three fields unrounded: the last close, the estimate and the last dividend themselves.
\<close>

theorem RobustDataLoader_fields_rounded:
  "(RobustDataLoader_fetch rp s = Inr (Some d) \<longrightarrow>
      round2 (preco_atual d) = preco_atual d
      \<and> round2 (dividend_yield d) = dividend_yield d
      \<and> round2 (ultimo_dividendo d) = ultimo_dividendo d)
   \<and> (DataLoader_fetch t rp s = Inr (Some d') \<and> history rp = Inr hist \<longrightarrow>
      preco_atual d' = Close (last hist)
      \<and> dividend_yield d' = safe_dividend_calc (dividends rp) (Close (last hist))
      \<and> ultimo_dividendo d' = safe_last_dividend (dividends rp))"
  using RobustDataLoader_fetch_cases[of rp s d] get_fallback_data_rounded[of rp s d]
    get_yfinance_data_rounded[of rp s d] DataLoader_fetch_Some[of t rp s d' hist]
  by blast

theorem RobustDataLoader_fields_rounded_witness:
  "RobustDataLoader_fetch sample_two_bars ''VALE3.SA'' = Inr (Some fallback_two_bars)
   \<and> DataLoader_fetch ''ACAO'' sample_two_bars ''VALE3.SA'' = Inr (Some plain_two_bars)
   \<and> history sample_two_bars = Inr [\<lparr>Open = 100, Close = 100\<rparr>, \<lparr>Open = 100, Close = 102\<rparr>]
   \<and> round2 (preco_atual fallback_two_bars) = preco_atual fallback_two_bars
   \<and> round2 (dividend_yield fallback_two_bars) = dividend_yield fallback_two_bars
   \<and> round2 (ultimo_dividendo fallback_two_bars) = ultimo_dividendo fallback_two_bars
   \<and> preco_atual plain_two_bars = Close \<lparr>Open = 100, Close = 102\<rparr>
   \<and> dividend_yield plain_two_bars = safe_dividend_calc (dividends sample_two_bars) 102
   \<and> ultimo_dividendo plain_two_bars = safe_last_dividend (dividends sample_two_bars)"
  using RobustDataLoader_fields_rounded
      [where rp = sample_two_bars and s = "''VALE3.SA''" and t = "''ACAO''"
         and d = fallback_two_bars and d' = plain_two_bars
         and hist = "[\<lparr>Open = 100, Close = 100\<rparr>, \<lparr>Open = 100, Close = 102\<rparr>]"]
    sample_fetches sample_replies
  by simp

text \<open>
  C8 as it is written fails on \<^verbatim>\<open>DataLoader\<close> of app.py: a close of 0.125 is returned
  as the price 0.125, which 2 decimals cannot hold.
\<close>

theorem DataLoader_unrounded_counterexample:
  "map_option preco_atual
     (fetched (DataLoader_fetch ''ACAO''
        \<lparr>session = None, set_session = Some (Exception ''AttributeError''),
           history = Inr [\<lparr>Open = 1 / 8, Close = 1 / 8\<rparr>], info = Inr [],
           dividends = Inr [], now = 0\<rparr>
        ''VALE3.SA'')) = Some (1 / 8)
   \<and> round2 (1 / 8) = 12 / 100"
  by (simp add: fetch_defs)

section \<open>Saving and loading\<close>

text \<open>
  C9. Saving a record and then a record of the same symbol, in two calls or in one,
  leaves exactly one row for that symbol, and it holds the second record; the table then
  holds the same records as after saving the second record alone. Saving the same record
  twice is the case where both records are equal.
\<close>

theorem salvar_ativos_idempotent_per_symbol:
  assumes "simbolo a = simbolo b"
  shows "map dados (filter (\<lambda>r. simbolo (dados r) = simbolo b)
           (ativos_table (salvar_ativos (salvar_ativos db [a]) [b]))) = [b]
       \<and> map dados (filter (\<lambda>r. simbolo (dados r) = simbolo b)
           (ativos_table (salvar_ativos db [a, b]))) = [b]
       \<and> map dados (ativos_table (salvar_ativos (salvar_ativos db [a]) [b])) =
           map dados (ativos_table (salvar_ativos db [b]))
       \<and> map dados (ativos_table (salvar_ativos db [a, b])) =
           map dados (ativos_table (salvar_ativos db [b]))"
proof -
  have 1: "map dados (filter (\<lambda>r. simbolo (dados r) = simbolo b)
           (ativos_table (salvar_ativos (salvar_ativos db [a]) [b]))) = [b]"
    using rows_of_last_write[of b "salvar_ativos db [a]" "[]"] by simp
  have 2: "map dados (filter (\<lambda>r. simbolo (dados r) = simbolo b)
           (ativos_table (salvar_ativos db [a, b]))) = [b]"
    using rows_of_last_write[of b db "[a]"] by simp
  have 3: "map dados (ativos_table (salvar_ativos db [a, b])) =
           map dados (ativos_table (salvar_ativos db [b]))"
    using same_symbol_overwrites[OF assms, of db]
    by (simp add: salvar_ativos_Cons salvar_ativos_Nil)
  have 4: "salvar_ativos (salvar_ativos db [a]) [b] = salvar_ativos db [a, b]"
    using salvar_ativos_append[of db "[a]" "[b]"] by simp
  from 1 2 3 4 show ?thesis by simp
qed

theorem salvar_ativos_idempotent_per_symbol_witness:
  "simbolo (sample_row_data ''VALE3'' 60) = simbolo (sample_row_data ''VALE3'' 61)
   \<and> map dados (filter (\<lambda>r. simbolo (dados r) = simbolo (sample_row_data ''VALE3'' 61))
        (ativos_table (salvar_ativos (salvar_ativos (init_db None)
           [sample_row_data ''VALE3'' 60]) [sample_row_data ''VALE3'' 61]))) =
       [sample_row_data ''VALE3'' 61]
   \<and> map dados (ativos_table (salvar_ativos (init_db None)
        [sample_row_data ''VALE3'' 60, sample_row_data ''VALE3'' 61])) =
       [sample_row_data ''VALE3'' 61]"
proof -
  have h: "simbolo (sample_row_data ''VALE3'' 60) = simbolo (sample_row_data ''VALE3'' 61)"
    by (simp add: sample_row_data_def)
  have s: "map dados (ativos_table (salvar_ativos (init_db None) [sample_row_data ''VALE3'' 61])) =
       [sample_row_data ''VALE3'' 61]"
    by (simp add: salvar_ativos_def insert_or_replace_def init_db_def Let_def)
  from salvar_ativos_idempotent_per_symbol[OF h, of "init_db None"] h s show ?thesis
    by simp
qed

text \<open>
  C10. A save leaves every row whose symbol is not in the saved list as it was, in the
  same order, and such a row is among the rows that the next load returns.
\<close>

theorem salvar_ativos_leaves_other_rows:
  "filter (\<lambda>r. simbolo (dados r) \<notin> simbolo ` set ativos)
     (ativos_table (salvar_ativos db ativos)) =
   filter (\<lambda>r. simbolo (dados r) \<notin> simbolo ` set ativos) (ativos_table db)
   \<and> (r \<in> set (ativos_table db) \<and> simbolo (dados r) \<notin> simbolo ` set ativos \<longrightarrow>
        r \<in> set (carregar_ativos (salvar_ativos db ativos)))"
proof -
  have fr: "filter (\<lambda>r. simbolo (dados r) \<notin> simbolo ` set ativos)
     (ativos_table (salvar_ativos db ativos)) =
   filter (\<lambda>r. simbolo (dados r) \<notin> simbolo ` set ativos) (ativos_table db)"
    by (rule salvar_ativos_frame)
  have "r \<in> set (carregar_ativos (salvar_ativos db ativos))"
    if "r \<in> set (ativos_table db)" and "simbolo (dados r) \<notin> simbolo ` set ativos"
  proof -
    from that have "r \<in> set (filter (\<lambda>r. simbolo (dados r) \<notin> simbolo ` set ativos) (ativos_table db))"
      by simp
    with fr have "r \<in> set (filter (\<lambda>r. simbolo (dados r) \<notin> simbolo ` set ativos)
        (ativos_table (salvar_ativos db ativos)))" by simp
    then show ?thesis by (simp add: set_carregar_ativos)
  qed
  with fr show ?thesis by blast
qed

theorem salvar_ativos_leaves_other_rows_witness:
  "\<lparr>row_id = 2, dados = sample_row_data ''PETR4'' 30\<rparr> \<in> set (ativos_table
      (salvar_ativos (init_db None) [sample_row_data ''VALE3'' 60, sample_row_data ''PETR4'' 30]))
   \<and> simbolo (dados \<lparr>row_id = 2, dados = sample_row_data ''PETR4'' 30\<rparr>) \<notin>
       simbolo ` set [sample_row_data ''VALE3'' 61]
   \<and> \<lparr>row_id = 2, dados = sample_row_data ''PETR4'' 30\<rparr> \<in> set (carregar_ativos
      (salvar_ativos
        (salvar_ativos (init_db None) [sample_row_data ''VALE3'' 60, sample_row_data ''PETR4'' 30])
        [sample_row_data ''VALE3'' 61]))"
proof -
  have h1: "\<lparr>row_id = 2, dados = sample_row_data ''PETR4'' 30\<rparr> \<in> set (ativos_table
      (salvar_ativos (init_db None) [sample_row_data ''VALE3'' 60, sample_row_data ''PETR4'' 30]))"
    by (simp add: db_defs)
  have h2: "simbolo (dados \<lparr>row_id = 2, dados = sample_row_data ''PETR4'' 30\<rparr>) \<notin>
       simbolo ` set [sample_row_data ''VALE3'' 61]"
    by (simp add: sample_row_data_def)
  from salvar_ativos_leaves_other_rows
     [of "[sample_row_data ''VALE3'' 61]"
         "salvar_ativos (init_db None) [sample_row_data ''VALE3'' 60, sample_row_data ''PETR4'' 30]"
         "\<lparr>row_id = 2, dados = sample_row_data ''PETR4'' 30\<rparr>"]
    h1 h2
  show ?thesis by blast
qed

end
